theory Spec2Isabelle
  imports Main
begin

section \<open>Tsundoku: the episode acquisition pipeline\<close>

text \<open>
  A shallow embedding of \<^verbatim>\<open>feeds/poller.py\<close>, \<^verbatim>\<open>feeds/downloader.py\<close> and
  \<^verbatim>\<open>tsundoku/blueprints/api/__init__.py\<close>. Python exceptions are values of the
  type \<open>error\<close>; a coroutine that touches the database, the torrent client, the file
  system or the standard output takes the \<open>world\<close> and returns its outcome together with
  the world it leaves behind. A character is a Unicode code point below 256, so a string
  is a Python \<^verbatim>\<open>str\<close> over the Latin-1 range; a string with any other code point is
  outside the model.
\<close>

subsection \<open>Exceptions\<close>

datatype error =
    EntryNotInDeluge int int   \<comment> \<open>show id and episode of the message\<close>
  | SavePathDoesNotExist string
  | KeyError string
  | IndexError
  | TypeError
  | AttributeError
  | ValueError
  | FileNotFoundError
  | IsADirectoryError
  | ExternalError string       \<comment> \<open>raised by a collaborator: a hook, the feed fetch, the client\<close>

subsection \<open>Rows of the two tables\<close>

record shows_row =
  id_shows :: int
  search_title :: string
  desired_format :: "string option"
  desired_folder :: "string option"
  season :: int
  episode_offset :: int

record show_entry_row =
  id_show_entry :: int
  show_id :: int
  episode :: int
  torrent_hash :: string
  current_state :: string

subsection \<open>Paths\<close>

text \<open>
  \<^verbatim>\<open>pathlib.Path\<close> in its POSIX flavour (CPython 3.8): a path is its anchor
  (\<open>''''\<close>, \<open>''/''\<close> or \<open>''//''\<close>) and the components below it. Empty components and
  \<open>''.''\<close> are dropped when a string is parsed.
\<close>

record path =
  anchor :: string
  parts :: "string list"

fun split_sep :: "string \<Rightarrow> string list" where
  "split_sep [] = [[]]"
| "split_sep (c # cs) =
     (if c = CHR ''/'' then [] # split_sep cs
      else (case split_sep cs of [] \<Rightarrow> [[c]] | p # ps \<Rightarrow> (c # p) # ps))"

definition splitroot :: "string \<Rightarrow> string \<times> string" where
  "splitroot part =
     (let stripped = dropWhile (\<lambda>c. c = CHR ''/'') part
      in if part \<noteq> [] \<and> hd part = CHR ''/'' then
           (if length part - length stripped = 2 then (''//'', stripped) else (''/'', stripped))
         else ('''', part))"

definition Path :: "string \<Rightarrow> path" where
  "Path s =
     (let (r, rel) = splitroot s
      in \<lparr>anchor = r, parts = filter (\<lambda>x. x \<noteq> [] \<and> x \<noteq> ''.'') (split_sep rel)\<rparr>)"

definition joinpath :: "path \<Rightarrow> string \<Rightarrow> path" where
  "joinpath p s =
     (let q = Path s in if anchor q \<noteq> [] then q else p\<lparr>parts := parts p @ parts q\<rparr>)"

definition path_name :: "path \<Rightarrow> string" where
  "path_name p = (if parts p = [] then [] else last (parts p))"

fun rfind_dot :: "string \<Rightarrow> nat option" where
  "rfind_dot [] = None"
| "rfind_dot (c # cs) =
     (case rfind_dot cs of
        Some i \<Rightarrow> Some (Suc i)
      | None \<Rightarrow> (if c = CHR ''.'' then Some 0 else None))"

definition suffix :: "path \<Rightarrow> string" where
  "suffix p =
     (let n = path_name p
      in case rfind_dot n of
           None \<Rightarrow> []
         | Some i \<Rightarrow> (if 0 < i \<and> i < length n - 1 then drop i n else []))"

definition with_name :: "path \<Rightarrow> string \<Rightarrow> error + path" where
  "with_name p nm =
     (if path_name p = [] then Inl ValueError
      else if nm = [] \<or> last nm = CHR ''/'' \<or> anchor (Path nm) \<noteq> []
              \<or> length (parts (Path nm)) \<noteq> 1
      then Inl ValueError
      else Inr (p\<lparr>parts := butlast (parts p) @ [nm]\<rparr>))"

subsection \<open>The collaborators and the world\<close>

record torrent_info =
  save_path :: string
  name :: string

type_synonym item = "string \<rightharpoonup> string"

record feed =
  items :: "item list"

text \<open>
  An RSS parser object: \<open>url\<close>, the two mandatory extraction methods, and the three
  methods the poller looks for with \<^verbatim>\<open>hasattr\<close>.
\<close>

record parser =
  url :: string
  get_show_name :: "string \<Rightarrow> error + string"
  get_episode_number :: "string \<Rightarrow> error + int"
  ignore_logic :: "(item \<Rightarrow> error + bool) option"
  get_file_name :: "(item \<Rightarrow> error + string) option"
  get_link_location :: "(item \<Rightarrow> error + string) option"

text \<open>
  The world a coroutine runs in: the two tables and the sequence of \<^verbatim>\<open>show_entry.id\<close>,
  the Deluge client (the torrents it knows, and its answers to \<^verbatim>\<open>add_torrent\<close> and
  \<^verbatim>\<open>get_magnet\<close>), the answer of \<^verbatim>\<open>feedparser.parse\<close> for a URL, the regular files
  and the directories of the file system, and the lines printed so far.
\<close>

record world =
  shows_table :: "shows_row list"
  show_entry_table :: "show_entry_row list"
  show_entry_seq :: int
  torrents :: "string \<rightharpoonup> torrent_info"
  add_torrent :: "string \<Rightarrow> error + string"
  get_magnet :: "string \<Rightarrow> error + string"
  feedparser_parse :: "string \<Rightarrow> error + feed"
  files :: "path set"
  dirs :: "path set"
  stdout :: "string list"

type_synonym 'a io = "world \<Rightarrow> (error + 'a) \<times> world"

text \<open>
  Modelled from the spec: \<^verbatim>\<open>get_torrent\<close> of the Deluge client (\<^verbatim>\<open>app.deluge\<close>) is
  not among the sources. It answers with the save path and the name of a torrent it
  knows, and raises for a hash it does not know; the exception is \<^verbatim>\<open>IndexError\<close>, the
  one \<^verbatim>\<open>check_show_entry\<close> catches.
\<close>

definition get_torrent :: "world \<Rightarrow> string \<Rightarrow> error + torrent_info" where
  "get_torrent w h = (case torrents w h of None \<Rightarrow> Inl IndexError | Some info \<Rightarrow> Inr info)"

subsection \<open>Match resolver\<close>

text \<open>
  Modelled from the spec: \<^verbatim>\<open>process.extractOne\<close> of \<^verbatim>\<open>fuzzywuzzy\<close> with its default
  cutoff 0. The similarity measure is the parameter \<open>scorer\<close>; every choice scoring at
  least the cutoff is a candidate, and Python's \<^verbatim>\<open>max\<close> keeps the first of the
  candidates with the highest score. No candidate gives \<^verbatim>\<open>None\<close>.
\<close>

type_synonym scorer = "string \<Rightarrow> string \<Rightarrow> int"

definition extractWithoutOrder :: "scorer \<Rightarrow> string \<Rightarrow> string list \<Rightarrow> (string \<times> int) list" where
  "extractWithoutOrder sc query choices =
     map (\<lambda>c. (c, sc query c)) (filter (\<lambda>c. 0 \<le> sc query c) choices)"

fun max_by_score :: "string \<times> int \<Rightarrow> (string \<times> int) list \<Rightarrow> string \<times> int" where
  "max_by_score best [] = best"
| "max_by_score best (x # xs) = max_by_score (if snd best < snd x then x else best) xs"

definition extractOne :: "scorer \<Rightarrow> string \<Rightarrow> string list \<Rightarrow> (string \<times> int) option" where
  "extractOne sc query choices =
     (case extractWithoutOrder sc query choices of
        [] \<Rightarrow> None
      | x # xs \<Rightarrow> Some (max_by_score x xs))"

text \<open>
  \<^verbatim>\<open>Poller.check_item_for_match\<close>. The parameter \<open>episode\<close> is not used by the body.
  \<^verbatim>\<open>match[1]\<close> on \<^verbatim>\<open>None\<close> is a \<^verbatim>\<open>TypeError\<close>.
\<close>

definition check_item_for_match ::
  "scorer \<Rightarrow> world \<Rightarrow> string \<Rightarrow> int \<Rightarrow> error + string option" where
  "check_item_for_match sc w show_name_rss episode_rss =
     (let show_list = map search_title (shows_table w)
      in if show_list = [] then Inr None
         else (case extractOne sc show_name_rss show_list of
                 None \<Rightarrow> Inl TypeError
               | Some match \<Rightarrow> (if 90 \<le> snd match then Inr (Some (fst match)) else Inr None)))"

subsection \<open>Python's \<^verbatim>\<open>str\<close> of an integer, \<^verbatim>\<open>zfill\<close>, \<^verbatim>\<open>replace\<close> and dictionary lookup\<close>

fun str_nat :: "nat \<Rightarrow> string" where
  "str_nat n =
     (if n < 10 then [''0123456789'' ! n]
      else str_nat (n div 10) @ [''0123456789'' ! (n mod 10)])"

declare str_nat.simps [simp del]

definition str_int :: "int \<Rightarrow> string" where
  "str_int i = (if i < 0 then CHR ''-'' # str_nat (nat (- i)) else str_nat (nat i))"

definition zfill :: "nat \<Rightarrow> string \<Rightarrow> string" where
  "zfill width s =
     (if width \<le> length s then s
      else (case s of
              [] \<Rightarrow> replicate width CHR ''0''
            | c # cs \<Rightarrow>
                (if c = CHR ''+'' \<or> c = CHR ''-''
                 then c # replicate (width - length s) CHR ''0'' @ cs
                 else replicate (width - length s) CHR ''0'' @ s)))"

definition replace_char :: "char \<Rightarrow> char \<Rightarrow> string \<Rightarrow> string" where
  "replace_char old new s = map (\<lambda>c. if c = old then new else c) s"

definition getitem :: "item \<Rightarrow> string \<Rightarrow> error + string" where
  "getitem d k = (case d k of None \<Rightarrow> Inl (KeyError k) | Some v \<Rightarrow> Inr v)"

subsection \<open>Feed poller\<close>

text \<open>
  \<^verbatim>\<open>self.current_parser\<close> is assigned by \<^verbatim>\<open>start\<close> before every use; the methods
  that read it take the parser as the argument \<open>p\<close>.
\<close>

definition get_feed_from_parser :: "parser \<Rightarrow> world \<Rightarrow> error + feed" where
  "get_feed_from_parser p w = feedparser_parse w (url p)"

definition get_torrent_link :: "parser \<Rightarrow> item \<Rightarrow> world \<Rightarrow> error + string" where
  "get_torrent_link p item w =
     (case get_link_location p of
        None \<Rightarrow> Inl AttributeError
      | Some hook \<Rightarrow>
          (case hook item of
             Inl e \<Rightarrow> Inl e
           | Inr torrent_location \<Rightarrow> get_magnet w torrent_location))"

definition check_item :: "scorer \<Rightarrow> parser \<Rightarrow> item \<Rightarrow> unit io" where
  "check_item sc p item w =
     (case (case ignore_logic p of None \<Rightarrow> Inr True | Some hook \<Rightarrow> hook item) of
        Inl e \<Rightarrow> (Inl e, w)
      | Inr keep \<Rightarrow>
          if keep = False then (Inr (), w)
          else
            (case (case get_file_name p of
                     Some hook \<Rightarrow> hook item
                   | None \<Rightarrow> getitem item ''title'') of
               Inl e \<Rightarrow> (Inl e, w)
             | Inr torrent_name \<Rightarrow>
                 (case get_show_name p torrent_name of
                    Inl e \<Rightarrow> (Inl e, w)
                  | Inr show_name \<Rightarrow>
                      (case get_episode_number p torrent_name of
                         Inl e \<Rightarrow> (Inl e, w)
                       | Inr show_episode \<Rightarrow>
                           (case check_item_for_match sc w show_name show_episode of
                              Inl e \<Rightarrow> (Inl e, w)
                            | Inr None \<Rightarrow> (Inr (), w)
                            | Inr (Some match) \<Rightarrow>
                                (case (case get_link_location p of
                                         Some hook \<Rightarrow> get_torrent_link p item w
                                       | None \<Rightarrow> getitem item ''link'') of
                                   Inl e \<Rightarrow> (Inl e, w)
                                 | Inr torrent_url \<Rightarrow>
                                     (Inr (), w\<lparr>stdout := stdout w @
                                        [show_name @ '' '' @ str_int show_episode]\<rparr>)))))))"

fun check_items :: "scorer \<Rightarrow> parser \<Rightarrow> item list \<Rightarrow> unit io" where
  "check_items sc p [] w = (Inr (), w)"
| "check_items sc p (item # rest) w =
     (case check_item sc p item w of
        (Inl e, w') \<Rightarrow> (Inl e, w')
      | (Inr u, w') \<Rightarrow> check_items sc p rest w')"

definition check_feed :: "scorer \<Rightarrow> parser \<Rightarrow> feed \<Rightarrow> unit io" where
  "check_feed sc p fd w = check_items sc p (items fd) w"

text \<open>
  One pass of the \<^verbatim>\<open>for parser in self.app.rss_parsers\<close> loop of \<^verbatim>\<open>Poller.start\<close>.
\<close>

fun poll_parsers :: "scorer \<Rightarrow> parser list \<Rightarrow> unit io" where
  "poll_parsers sc [] w = (Inr (), w)"
| "poll_parsers sc (p # rest) w =
     (case get_feed_from_parser p w of
        Inl e \<Rightarrow> (Inl e, w)
      | Inr fd \<Rightarrow>
          (case check_feed sc p fd w of
             (Inl e, w') \<Rightarrow> (Inl e, w')
           | (Inr u, w') \<Rightarrow> poll_parsers sc rest w'))"

text \<open>
  \<^verbatim>\<open>Poller.start\<close> for at most \<open>n\<close> rounds of its \<^verbatim>\<open>while True\<close>; the sleep between
  two rounds changes nothing in the world. \<open>None\<close>: the loop is still running after
  \<open>n\<close> rounds. \<open>Some e\<close>: the exception \<open>e\<close> left the loop.
\<close>

fun poller_start :: "scorer \<Rightarrow> parser list \<Rightarrow> nat \<Rightarrow> world \<Rightarrow> error option \<times> world" where
  "poller_start sc ps 0 w = (None, w)"
| "poller_start sc ps (Suc n) w =
     (case poll_parsers sc ps w of
        (Inl e, w') \<Rightarrow> (Some e, w')
      | (Inr u, w') \<Rightarrow> poller_start sc ps n w')"

subsection \<open>Rename and relocate\<close>

text \<open>
  \<^verbatim>\<open>re.sub(r"{(\w+)}", repl, s)\<close> with a function \<open>repl\<close> of the first group: a match
  is an opening brace, the longest run of word characters after it, which must not be
  empty, and a closing brace right after the run. Matches are looked for from left to
  right and do not overlap; everything else is copied. The pattern is a \<^verbatim>\<open>str\<close>, so
  \<^verbatim>\<open>\w\<close> is the Unicode class: the underscore and every alphanumeric character, which
  below 256 are the ASCII letters and digits and the code points listed in \<open>is_word\<close>.
\<close>

definition code_point :: "char \<Rightarrow> nat" where
  "code_point c = of_char c"

definition is_word :: "char \<Rightarrow> bool" where
  "is_word c =
     (c \<in> set ''abcdefghijklmnopqrstuvwxyzABCDEFGHIJKLMNOPQRSTUVWXYZ0123456789_''
      \<or> code_point c \<in> set [170, 178, 179, 181, 185, 186]
      \<or> (188 \<le> code_point c \<and> code_point c \<le> 190)
      \<or> (192 \<le> code_point c \<and> code_point c \<le> 214)
      \<or> (216 \<le> code_point c \<and> code_point c \<le> 246)
      \<or> (248 \<le> code_point c \<and> code_point c \<le> 255))"

function re_sub :: "(string \<Rightarrow> string) \<Rightarrow> string \<Rightarrow> string" where
  "re_sub repl [] = []"
| "re_sub repl (c # cs) =
     (if c = CHR ''{'' \<and> takeWhile is_word cs \<noteq> [] \<and> dropWhile is_word cs \<noteq> []
         \<and> hd (dropWhile is_word cs) = CHR ''}''
      then repl (takeWhile is_word cs) @ re_sub repl (tl (dropWhile is_word cs))
      else c # re_sub repl cs)"
  by pat_completeness auto
termination
proof (relation "measure (\<lambda>(repl, s). length s)")
  fix repl :: "string \<Rightarrow> string" and c :: char and cs :: string
  have "length (tl (dropWhile is_word cs)) \<le> length cs"
    using length_dropWhile_le [of is_word cs] by simp
  then show "((repl, tl (dropWhile is_word cs)), (repl, c # cs))
               \<in> measure (\<lambda>(repl, s). length s)"
    by simp
qed simp_all

declare re_sub.simps [simp del]

definition formatting_re :: "shows_row \<Rightarrow> show_entry_row \<Rightarrow> string \<Rightarrow> string" where
  "formatting_re show_info entry expression =
     (let season_s = str_int (season show_info);
          episode_s = str_int (episode entry + episode_offset show_info);
          format_exprs = map_of
            [(''n'', search_title show_info),
             (''s'', season_s),
             (''e'', episode_s),
             (''s00'', zfill 2 season_s),
             (''e00'', zfill 2 episode_s),
             (''s00e00'', ''S'' @ zfill 2 season_s @ ''E'' @ zfill 2 episode_s),
             (''sxe'', season_s @ ''x'' @ zfill 2 episode_s)]
      in (case format_exprs expression of Some v \<Rightarrow> v | None \<Rightarrow> expression))"

text \<open>
  The file system: the regular files and the directories, each known by the path its
  string form parses to. \<^verbatim>\<open>os.rename\<close> as on POSIX: an existing regular file at the
  target is replaced.
\<close>

fun str_join :: "string \<Rightarrow> string list \<Rightarrow> string" where
  "str_join sep [] = []"
| "str_join sep [x] = x"
| "str_join sep (x # y # ys) = x @ sep @ str_join sep (y # ys)"

definition fspath :: "path \<Rightarrow> string" where
  "fspath p = (if anchor p = [] \<and> parts p = [] then ''.'' else anchor p @ str_join ''/'' (parts p))"

definition is_dir :: "world \<Rightarrow> path \<Rightarrow> bool" where
  "is_dir w p = (Path (fspath p) \<in> dirs w)"

definition is_file :: "world \<Rightarrow> path \<Rightarrow> bool" where
  "is_file w p = (Path (fspath p) \<in> files w)"

definition os_rename :: "path \<Rightarrow> path \<Rightarrow> unit io" where
  "os_rename src dst w =
     (if Path (fspath src) \<notin> files w then (Inl FileNotFoundError, w)
      else if Path (fspath dst) \<in> dirs w then (Inl IsADirectoryError, w)
      else (Inr (), w\<lparr>files := insert (Path (fspath dst)) (files w - {Path (fspath src)})\<rparr>))"

definition file_fmt_of :: "shows_row \<Rightarrow> string" where
  "file_fmt_of show_info =
     (case desired_format show_info of
        None \<Rightarrow> ''{n} - {s00e00}''
      | Some fmt \<Rightarrow> (if fmt \<noteq> [] then fmt else ''{n} - {s00e00}''))"

text \<open>
  \<^verbatim>\<open>Downloader.handle_rename\<close>. \<^verbatim>\<open>fetchrow\<close> gives the first row with the id, or
  \<^verbatim>\<open>None\<close>, on which the subscript is a \<^verbatim>\<open>TypeError\<close>.
\<close>

definition handle_rename :: "show_entry_row \<Rightarrow> path \<Rightarrow> path io" where
  "handle_rename entry pth w =
     (let sfx = suffix pth
      in case find (\<lambda>s. id_shows s = show_id entry) (shows_table w) of
           None \<Rightarrow> (Inl TypeError, w)
         | Some show_info \<Rightarrow>
             (let file_fmt = file_fmt_of show_info;
                  nm = re_sub (formatting_re show_info entry) file_fmt
              in case with_name pth (nm @ sfx) of
                   Inl e \<Rightarrow> (Inl e, w)
                 | Inr new_path \<Rightarrow>
                     (case os_rename pth new_path w of
                        (Inl e, w') \<Rightarrow> (Inl e, w')
                      | (Inr u, w') \<Rightarrow> (Inr new_path, w'))))"

subsection \<open>Download watcher\<close>

text \<open>
  Modelled from the spec: the definition of the table \<^verbatim>\<open>show_entry\<close> is not among the
  sources; the two columns the \<^verbatim>\<open>INSERT\<close> of \<^verbatim>\<open>Downloader.begin_handling\<close> leaves
  out get the next id of the sequence and the state \<open>''downloading''\<close>.
\<close>

definition begin_handling :: "int \<Rightarrow> int \<Rightarrow> string \<Rightarrow> unit io" where
  "begin_handling sid ep magnet_url w =
     (case add_torrent w magnet_url of
        Inl e \<Rightarrow> (Inl e, w)
      | Inr h \<Rightarrow>
          (Inr (), w\<lparr>show_entry_table := show_entry_table w @
                       [\<lparr>id_show_entry = show_entry_seq w, show_id = sid, episode = ep,
                         torrent_hash = h, current_state = ''downloading''\<rparr>],
                     show_entry_seq := show_entry_seq w + 1\<rparr>))"

text \<open>
  \<^verbatim>\<open>Downloader.get_file_path\<close> assigns a literal to \<^verbatim>\<open>file_location\<close> in its first
  statement, so the argument is dead from there on. \<open>bs\<close> is the backslash.
\<close>

definition bs :: char where
  "bs = CHR 0x5C"

definition test_location :: string where
  "test_location =
     ''C:'' @ [bs] @ ''Users'' @ [bs] @ ''Tyler'' @ [bs] @ ''Documents'' @ [bs] @ ''GitHub''
       @ [bs] @ ''Tsundoku'' @ [bs] @ ''test'' @ [bs]"

definition get_file_path :: "world \<Rightarrow> string \<Rightarrow> string \<Rightarrow> error + path" where
  "get_file_path w file_location file_name =
     (let file_location = test_location;
          file_location = replace_char bs CHR ''/'' file_location;
          location = Path file_location
      in if \<not> is_dir w location then Inl (SavePathDoesNotExist file_location)
         else Inr (joinpath location file_name))"

definition check_show_entry :: "show_entry_row \<Rightarrow> unit io" where
  "check_show_entry entry w =
     (case get_torrent w (torrent_hash entry) of
        Inl e \<Rightarrow>
          (if e = IndexError then (Inl (EntryNotInDeluge (show_id entry) (episode entry)), w)
           else (Inl e, w))
      | Inr deluge_info \<Rightarrow>
          (let file_location = save_path deluge_info;
               file_name = name deluge_info
           in case get_file_path w file_location file_name of
                Inl e \<Rightarrow> (Inl e, w)
              | Inr pth \<Rightarrow>
                  (if \<not> is_file w pth then (Inr (), w)
                   else (case handle_rename entry pth w of
                           (Inl e, w') \<Rightarrow> (Inl e, w')
                         | (Inr new_path, w') \<Rightarrow> (Inr (), w')))))"

fun check_each_entry :: "show_entry_row list \<Rightarrow> unit io" where
  "check_each_entry [] w = (Inr (), w)"
| "check_each_entry (entry # rest) w =
     (case check_show_entry entry w of
        (Inl e, w') \<Rightarrow> (Inl e, w')
      | (Inr u, w') \<Rightarrow> check_each_entry rest w')"

definition check_show_entries :: "unit io" where
  "check_show_entries w =
     (let entries = filter (\<lambda>e. current_state e = ''downloading'') (show_entry_table w)
      in check_each_entry entries w)"

text \<open>
  \<^verbatim>\<open>Downloader.start\<close> for at most \<open>n\<close> rounds, read as \<open>poller_start\<close> is.
\<close>

fun downloader_start :: "nat \<Rightarrow> world \<Rightarrow> error option \<times> world" where
  "downloader_start 0 w = (None, w)"
| "downloader_start (Suc n) w =
     (case check_show_entries w of
        (Inl e, w') \<Rightarrow> (Some e, w')
      | (Inr u, w') \<Rightarrow> downloader_start n w')"

subsection \<open>Administrative surface: the two single-row GET views\<close>

text \<open>
  \<^verbatim>\<open>json.dumps\<close> with its defaults, on the values a row holds: \<^verbatim>\<open>None\<close>, an integer
  or a string. A character outside the printable ASCII range, a quote and a backslash
  are escaped.
\<close>

datatype json_value = JNull | JInt int | JStr string

definition escape_char :: "char \<Rightarrow> string" where
  "escape_char c =
     (if c = CHR 0x22 then [bs, CHR 0x22]
      else if c = bs then [bs, bs]
      else if c = CHR 0x08 then [bs, CHR ''b'']
      else if c = CHR 0x0C then [bs, CHR ''f'']
      else if c = CHR 0x0A then [bs, CHR ''n'']
      else if c = CHR 0x0D then [bs, CHR ''r'']
      else if c = CHR 0x09 then [bs, CHR ''t'']
      else if 32 \<le> (of_char c :: nat) \<and> (of_char c :: nat) \<le> 126 then [c]
      else [bs] @ ''u00'' @ [''0123456789abcdef'' ! ((of_char c :: nat) div 16),
                             ''0123456789abcdef'' ! ((of_char c :: nat) mod 16)])"

definition dumps_str :: "string \<Rightarrow> string" where
  "dumps_str s = [CHR 0x22] @ concat (map escape_char s) @ [CHR 0x22]"

fun dumps_value :: "json_value \<Rightarrow> string" where
  "dumps_value JNull = ''null''"
| "dumps_value (JInt i) = str_int i"
| "dumps_value (JStr s) = dumps_str s"

definition dumps_dict :: "(string \<times> json_value) list \<Rightarrow> string" where
  "dumps_dict d =
     ''{'' @ str_join '', '' (map (\<lambda>(k, v). dumps_str k @ '': '' @ dumps_value v) d) @ ''}''"

definition json_opt :: "string option \<Rightarrow> json_value" where
  "json_opt x = (case x of None \<Rightarrow> JNull | Some s \<Rightarrow> JStr s)"

text \<open>
  A view that returns a string: Quart sends it as the body of a response with status 200.
\<close>

type_synonym response = "nat \<times> string"

definition get_show_by_id :: "world \<Rightarrow> int \<Rightarrow> response" where
  "get_show_by_id w sid =
     (let found = find (\<lambda>s. id_shows s = sid) (shows_table w);
          d = (case found of
                 None \<Rightarrow> []
               | Some s \<Rightarrow>
                   [(''id'', JInt (id_shows s)),
                    (''search_title'', JStr (search_title s)),
                    (''desired_format'', json_opt (desired_format s)),
                    (''desired_folder'', json_opt (desired_folder s)),
                    (''season'', JInt (season s)),
                    (''episode_offset'', JInt (episode_offset s))])
      in (200, dumps_dict d))"

definition get_show_entry_by_entry_id :: "world \<Rightarrow> int \<Rightarrow> int \<Rightarrow> response" where
  "get_show_entry_by_entry_id w sid entry_id =
     (let found = find (\<lambda>e. show_id e = sid \<and> id_show_entry e = entry_id) (show_entry_table w);
          d = (case found of
                 None \<Rightarrow> []
               | Some e \<Rightarrow>
                   [(''id'', JInt (id_show_entry e)),
                    (''episode'', JInt (episode e)),
                    (''current_state'', JStr (current_state e)),
                    (''torrent_hash'', JStr (torrent_hash e))])
      in (200, dumps_dict d))"

subsection \<open>A small installation, for the concrete runs\<close>

text \<open>
  A similarity measure that scores a title equal to the query 100 and every other title 0,
  two shows, and a world with nothing in it.
\<close>

definition exact_scorer :: scorer where
  "exact_scorer query choice = (if query = choice then 100 else 0)"

definition one_piece :: shows_row where
  "one_piece = \<lparr>id_shows = 1, search_title = ''One Piece'', desired_format = None,
                desired_folder = None, season = 1, episode_offset = 0\<rparr>"

definition naruto :: shows_row where
  "naruto = \<lparr>id_shows = 2, search_title = ''Naruto'', desired_format = Some ''{n} - {zzz}'',
             desired_folder = None, season = 2, episode_offset = 12\<rparr>"

definition empty_world :: world where
  "empty_world = \<lparr>shows_table = [], show_entry_table = [], show_entry_seq = 1,
                  torrents = Map.empty, add_torrent = (\<lambda>m. Inr m), get_magnet = (\<lambda>l. Inr l),
                  feedparser_parse = (\<lambda>u. Inr \<lparr>items = []\<rparr>), files = {}, dirs = {},
                  stdout = []\<rparr>"

text \<open>
  A parser without optional methods that takes the title of an item for the name of the
  show and 5 for its episode, an item of \<open>one_piece\<close>, and the row that tracks it.
\<close>

definition plain_parser :: parser where
  "plain_parser = \<lparr>url = ''feed-b'', get_show_name = (\<lambda>t. Inr t),
                   get_episode_number = (\<lambda>t. Inr 5), ignore_logic = None,
                   get_file_name = None, get_link_location = None\<rparr>"

definition op_item :: item where
  "op_item = [''title'' \<mapsto> ''One Piece'', ''link'' \<mapsto> ''magnet:?xt=urn:btih:abc'']"

definition op_entry :: show_entry_row where
  "op_entry = \<lparr>id_show_entry = 1, show_id = 1, episode = 5, torrent_hash = ''abc'',
               current_state = ''downloading''\<rparr>"

definition shows_world :: world where
  "shows_world = empty_world\<lparr>shows_table := [naruto, one_piece]\<rparr>"

definition tracked_world :: world where
  "tracked_world = shows_world\<lparr>show_entry_table := [op_entry], show_entry_seq := 2\<rparr>"

text \<open>
  The torrent of \<open>op_entry\<close> as the client reports it, and two worlds in which the
  download is finished: in \<open>downloads_world\<close> the file lies in the reported save path,
  in \<open>test_world\<close> it lies in the directory \<open>test_dir\<close>.
\<close>

definition abc_info :: torrent_info where
  "abc_info = \<lparr>save_path = ''/downloads'', name = ''ep05.mkv''\<rparr>"

definition downloads_world :: world where
  "downloads_world = tracked_world\<lparr>torrents := [''abc'' \<mapsto> abc_info],
     files := {\<lparr>anchor = ''/'', parts = [''downloads'', ''ep05.mkv'']\<rparr>},
     dirs := {\<lparr>anchor = ''/'', parts = [''downloads'']\<rparr>}\<rparr>"

definition test_dir :: path where
  "test_dir = \<lparr>anchor = [], parts = [''C:'', ''Users'', ''Tyler'', ''Documents'', ''GitHub'',
                                     ''Tsundoku'', ''test'']\<rparr>"

definition test_world :: world where
  "test_world = tracked_world\<lparr>torrents := [''abc'' \<mapsto> abc_info],
     files := {test_dir\<lparr>parts := parts test_dir @ [''ep05.mkv'']\<rparr>},
     dirs := {test_dir}\<rparr>"

text \<open>
  A row that tracks episode 3 of \<open>naruto\<close>, the finished file of \<open>test_world\<close>, and the
  path that file gets when it is renamed for \<open>op_entry\<close>.
\<close>

definition naruto_entry :: show_entry_row where
  "naruto_entry = \<lparr>id_show_entry = 2, show_id = 2, episode = 3, torrent_hash = ''def'',
                   current_state = ''downloading''\<rparr>"

definition ep05_path :: path where
  "ep05_path = test_dir\<lparr>parts := parts test_dir @ [''ep05.mkv'']\<rparr>"

definition op_renamed :: path where
  "op_renamed = test_dir\<lparr>parts := parts test_dir @ [''One Piece - S01E05.mkv'']\<rparr>"

text \<open>
  A second parser for the feed \<^verbatim>\<open>feed-a\<close>, an item without a title, and two worlds:
  in \<open>malformed_world\<close> the feed \<^verbatim>\<open>feed-a\<close> holds the item without a title, in
  \<open>unreachable_world\<close> its fetch raises. Every other feed holds \<open>op_item\<close>.
\<close>

definition parser_a :: parser where
  "parser_a = plain_parser\<lparr>url := ''feed-a''\<rparr>"

definition untitled_item :: item where
  "untitled_item = [''link'' \<mapsto> ''magnet:?xt=urn:btih:fff'']"

definition malformed_world :: world where
  "malformed_world = shows_world\<lparr>feedparser_parse :=
     (\<lambda>u. if u = ''feed-a'' then Inr \<lparr>items = [untitled_item]\<rparr> else Inr \<lparr>items = [op_item]\<rparr>)\<rparr>"

definition unreachable_world :: world where
  "unreachable_world = shows_world\<lparr>feedparser_parse :=
     (\<lambda>u. if u = ''feed-a'' then Inl (ExternalError ''feed-a'') else Inr \<lparr>items = [op_item]\<rparr>)\<rparr>"

text \<open>
  A show with a slash in its title and the row that tracks its first episode, in a world
  with the finished file of \<open>test_world\<close>; and a world in which the path \<open>op_renamed\<close>
  is a directory.
\<close>

definition fate_zero :: shows_row where
  "fate_zero = \<lparr>id_shows = 3, search_title = ''Fate/Zero'', desired_format = None,
                desired_folder = None, season = 1, episode_offset = 0\<rparr>"

definition fate_entry :: show_entry_row where
  "fate_entry = \<lparr>id_show_entry = 3, show_id = 3, episode = 1, torrent_hash = ''abc'',
                 current_state = ''downloading''\<rparr>"

definition fate_world :: world where
  "fate_world = test_world\<lparr>shows_table := [naruto, one_piece, fate_zero],
                            show_entry_table := [fate_entry]\<rparr>"

definition dir_world :: world where
  "dir_world = test_world\<lparr>dirs := {test_dir, op_renamed}\<rparr>"

section \<open>Properties\<close>

lemmas install_defs = plain_parser_def op_item_def op_entry_def shows_world_def tracked_world_def
  empty_world_def one_piece_def naruto_def exact_scorer_def

subsection \<open>Match resolver\<close>

lemma max_by_score_mem: "max_by_score best xs \<in> set (best # xs)"
  by (induction xs arbitrary: best) auto

lemma extractOne_Some:
  assumes "extractOne sc query choices = Some m"
  shows "fst m \<in> set choices \<and> snd m = sc query (fst m)"
proof -
  obtain x xs where ex: "extractWithoutOrder sc query choices = x # xs"
    and m: "m = max_by_score x xs"
    using assms by (auto simp: extractOne_def split: list.splits)
  have "m \<in> set (extractWithoutOrder sc query choices)"
    using max_by_score_mem [of x xs] ex m by simp
  then show ?thesis
    by (auto simp: extractWithoutOrder_def)
qed

lemma extractOne_None:
  "extractOne sc query choices = None \<longleftrightarrow> (\<forall>c \<in> set choices. sc query c < 0)"
proof -
  have "extractOne sc query choices = None
        \<longleftrightarrow> filter (\<lambda>c. 0 \<le> sc query c) choices = []"
    by (cases "filter (\<lambda>c. 0 \<le> sc query c) choices")
       (simp_all add: extractOne_def extractWithoutOrder_def)
  also have "\<dots> \<longleftrightarrow> (\<forall>c \<in> set choices. sc query c < 0)"
    by (simp add: filter_empty_conv not_le)
  finally show ?thesis .
qed

text \<open>
  C7. With a similarity measure that has no negative score, the match step answers either
  no match or a title of the \<^verbatim>\<open>shows\<close> table whose score for the candidate is at
  least 90. With an empty table the answer is no match, whatever the measure is: no score
  enters the result.
\<close>

theorem check_item_for_match_threshold:
  assumes "\<forall>t \<in> set (shows_table w). 0 \<le> sc cand (search_title t)"
  shows "(check_item_for_match sc w cand ep = Inr None
          \<or> (\<exists>t. check_item_for_match sc w cand ep = Inr (Some t)
                 \<and> t \<in> set (map search_title (shows_table w)) \<and> 90 \<le> sc cand t))
         \<and> check_item_for_match sc' (w\<lparr>shows_table := []\<rparr>) cand ep = Inr None"
proof
  show "check_item_for_match sc' (w\<lparr>shows_table := []\<rparr>) cand ep = Inr None"
    by (simp add: check_item_for_match_def)
next
  let ?titles = "map search_title (shows_table w)"
  show "check_item_for_match sc w cand ep = Inr None
        \<or> (\<exists>t. check_item_for_match sc w cand ep = Inr (Some t)
               \<and> t \<in> set ?titles \<and> 90 \<le> sc cand t)"
  proof (cases "shows_table w = []")
    case True
    then show ?thesis by (simp add: check_item_for_match_def)
  next
    case False
    then have "\<not> (\<forall>c \<in> set ?titles. sc cand c < 0)"
      using assms by (cases "shows_table w") auto
    then obtain m where m: "extractOne sc cand ?titles = Some m"
      using extractOne_None [of sc cand ?titles] by (cases "extractOne sc cand ?titles") auto
    from extractOne_Some [OF m] have "fst m \<in> set ?titles" "snd m = sc cand (fst m)"
      by simp_all
    with m False show ?thesis
      by (auto simp: check_item_for_match_def Let_def)
  qed
qed

theorem check_item_for_match_threshold_witness:
  "0 \<le> exact_scorer ''One Piece'' (search_title naruto)
   \<and> 0 \<le> exact_scorer ''One Piece'' (search_title one_piece)
   \<and> check_item_for_match exact_scorer (empty_world\<lparr>shows_table := [naruto, one_piece]\<rparr>)
        ''One Piece'' 5 = Inr (Some ''One Piece'')
   \<and> 90 \<le> exact_scorer ''One Piece'' ''One Piece''
   \<and> check_item_for_match exact_scorer
        (empty_world\<lparr>shows_table := [naruto, one_piece], shows_table := []\<rparr>)
        ''One Piece'' 5 = Inr None"
  using check_item_for_match_threshold
    [of "empty_world\<lparr>shows_table := [naruto, one_piece]\<rparr>" exact_scorer "''One Piece''" 5 exact_scorer]
  by (simp add: check_item_for_match_def extractOne_def extractWithoutOrder_def exact_scorer_def
      one_piece_def naruto_def empty_world_def)

subsection \<open>Feed poller and the entry table\<close>

lemma check_item_table: "show_entry_table (snd (check_item sc p item w)) = show_entry_table w"
  by (simp add: check_item_def split: sum.splits option.splits)

lemma begin_handling_inserts:
  assumes "add_torrent w magnet_url = Inr h"
  shows "show_entry_table (snd (begin_handling sid ep magnet_url w))
           = show_entry_table w @
             [\<lparr>id_show_entry = show_entry_seq w, show_id = sid, episode = ep,
               torrent_hash = h, current_state = ''downloading''\<rparr>]"
  using assms by (simp add: begin_handling_def)

text \<open>
  C1. The item \<open>op_item\<close> of the wanted show \<open>one_piece\<close> passes every step of
  \<^verbatim>\<open>check_item\<close>: the run ends with the line \<^verbatim>\<open>One Piece 5\<close> on the standard
  output and with the world otherwise as it was. No run of \<^verbatim>\<open>check_item\<close>, for any
  parser, item and world, changes the \<^verbatim>\<open>show_entry\<close> table: no row is created.
\<close>

theorem check_item_creates_no_entry:
  "check_item exact_scorer plain_parser op_item shows_world
     = (Inr (), shows_world\<lparr>stdout := [''One Piece 5'']\<rparr>)
   \<and> show_entry_table (snd (check_item sc p item w)) = show_entry_table w"
proof
  show "check_item exact_scorer plain_parser op_item shows_world
          = (Inr (), shows_world\<lparr>stdout := [''One Piece 5'']\<rparr>)"
    by (simp add: check_item_def check_item_for_match_def extractOne_def extractWithoutOrder_def
        getitem_def str_int_def str_nat.simps install_defs)
  show "show_entry_table (snd (check_item sc p item w)) = show_entry_table w"
    by (rule check_item_table)
qed

text \<open>
  C3. In \<open>tracked_world\<close> episode 5 of \<open>one_piece\<close> already has a row in state
  \<open>''downloading''\<close>, and the match step accepts the episode once more. The answer of
  \<^verbatim>\<open>check_item_for_match\<close> is the same for every content of the \<^verbatim>\<open>show_entry\<close>
  table.
\<close>

theorem check_item_for_match_ignores_entries:
  "check_item_for_match exact_scorer tracked_world ''One Piece'' 5 = Inr (Some ''One Piece'')
   \<and> check_item_for_match sc (w\<lparr>show_entry_table := es\<rparr>) nm ep = check_item_for_match sc w nm ep"
  by (simp add: check_item_for_match_def extractOne_def extractWithoutOrder_def install_defs)

subsection \<open>Administrative surface\<close>

text \<open>
  C10. For a show id that no row of \<^verbatim>\<open>shows\<close> has, and for a pair of show id and entry
  id that no row of \<^verbatim>\<open>show_entry\<close> has, the two GET views answer status 200 with the
  body \<^verbatim>\<open>{}\<close>.
\<close>

theorem get_missing_row_is_empty_object:
  assumes "\<forall>s \<in> set (shows_table w). id_shows s \<noteq> sid"
    and "\<forall>e \<in> set (show_entry_table w). \<not> (show_id e = sid' \<and> id_show_entry e = eid)"
  shows "get_show_by_id w sid = (200, ''{}'')
         \<and> get_show_entry_by_entry_id w sid' eid = (200, ''{}'')"
proof -
  have "find (\<lambda>s. id_shows s = sid) (shows_table w) = None"
    using assms(1) by (simp add: find_None_iff)
  moreover have "find (\<lambda>e. show_id e = sid' \<and> id_show_entry e = eid) (show_entry_table w) = None"
    using assms(2) by (simp add: find_None_iff)
  ultimately show ?thesis
    by (simp add: get_show_by_id_def get_show_entry_by_entry_id_def dumps_dict_def)
qed

theorem get_missing_row_is_empty_object_witness:
  "id_shows naruto \<noteq> 7 \<and> id_shows one_piece \<noteq> 7
   \<and> \<not> (show_id op_entry = 1 \<and> id_show_entry op_entry = 9)
   \<and> get_show_by_id tracked_world 7 = (200, ''{}'')
   \<and> get_show_entry_by_entry_id tracked_world 1 9 = (200, ''{}'')"
  using get_missing_row_is_empty_object [of tracked_world 7 1 9]
  by (simp add: install_defs)

subsection \<open>Download watcher\<close>

lemma test_location_slashes:
  "replace_char bs CHR ''/'' test_location = ''C:/Users/Tyler/Documents/GitHub/Tsundoku/test/''"
  by (simp add: replace_char_def test_location_def bs_def)

lemma Path_test_location:
  "Path ''C:/Users/Tyler/Documents/GitHub/Tsundoku/test/'' = test_dir"
  by (simp add: Path_def splitroot_def test_dir_def)

lemma os_rename_keeps:
  "show_entry_table (snd (os_rename src dst w)) = show_entry_table w"
  "shows_table (snd (os_rename src dst w)) = shows_table w"
  "torrents (snd (os_rename src dst w)) = torrents w"
  "dirs (snd (os_rename src dst w)) = dirs w"
  by (simp_all add: os_rename_def)

lemma handle_rename_keeps:
  "show_entry_table (snd (handle_rename entry pth w)) = show_entry_table w"
  "shows_table (snd (handle_rename entry pth w)) = shows_table w"
  "torrents (snd (handle_rename entry pth w)) = torrents w"
  "dirs (snd (handle_rename entry pth w)) = dirs w"
  by (auto simp: handle_rename_def Let_def os_rename_def split: option.splits sum.splits prod.splits if_splits)

lemma check_show_entry_keeps:
  "show_entry_table (snd (check_show_entry entry w)) = show_entry_table w"
  "shows_table (snd (check_show_entry entry w)) = shows_table w"
  "torrents (snd (check_show_entry entry w)) = torrents w"
  "dirs (snd (check_show_entry entry w)) = dirs w"
proof -
  have *: "\<And>pth. snd (case handle_rename entry pth w of
                    (Inl e, w') \<Rightarrow> (Inl e, w') | (Inr new_path, w') \<Rightarrow> (Inr (), w'))
              = snd (handle_rename entry pth w)"
    by (simp split: prod.splits sum.splits)
  show "show_entry_table (snd (check_show_entry entry w)) = show_entry_table w"
    "shows_table (snd (check_show_entry entry w)) = shows_table w"
    "torrents (snd (check_show_entry entry w)) = torrents w"
    "dirs (snd (check_show_entry entry w)) = dirs w"
    by (simp_all add: check_show_entry_def Let_def * handle_rename_keeps split: sum.splits)
qed

lemma check_each_entry_keeps:
  "show_entry_table (snd (check_each_entry es w)) = show_entry_table w
   \<and> shows_table (snd (check_each_entry es w)) = shows_table w
   \<and> torrents (snd (check_each_entry es w)) = torrents w
   \<and> dirs (snd (check_each_entry es w)) = dirs w"
proof (induction es arbitrary: w)
  case Nil
  show ?case by simp
next
  case (Cons entry rest)
  obtain r w' where step: "check_show_entry entry w = (r, w')"
    by (cases "check_show_entry entry w")
  have keep: "show_entry_table w' = show_entry_table w" "shows_table w' = shows_table w"
    "torrents w' = torrents w" "dirs w' = dirs w"
    using check_show_entry_keeps [of entry w] step by simp_all
  show ?case
  proof (cases r)
    case (Inl e)
    with step keep show ?thesis by simp
  next
    case (Inr u)
    with step keep Cons.IH [of w'] show ?thesis by simp
  qed
qed

lemma check_show_entries_keeps:
  "show_entry_table (snd (check_show_entries w)) = show_entry_table w"
  by (simp add: check_show_entries_def check_each_entry_keeps)

lemma downloader_start_keeps:
  "show_entry_table (snd (downloader_start n w)) = show_entry_table w"
proof (induction n arbitrary: w)
  case 0
  show ?case by simp
next
  case (Suc n)
  obtain r w' where step: "check_show_entries w = (r, w')"
    by (cases "check_show_entries w")
  have keep: "show_entry_table w' = show_entry_table w"
    using check_show_entries_keeps [of w] step by simp
  show ?case
    using step keep Suc.IH [of w'] by (cases r) simp_all
qed

lemma check_each_entry_unknown:
  assumes "entry \<in> set es" and "torrents w (torrent_hash entry) = None"
  shows "\<exists>err. fst (check_each_entry es w) = Inl err"
  using assms
proof (induction es arbitrary: w)
  case Nil
  then show ?case by simp
next
  case (Cons x rest)
  obtain r w' where step: "check_show_entry x w = (r, w')"
    by (cases "check_show_entry x w")
  have keep: "torrents w' = torrents w"
    using check_show_entry_keeps(3) [of x w] step by simp
  show ?case
  proof (cases r)
    case (Inl e)
    with step show ?thesis by simp
  next
    case (Inr u)
    have "x \<noteq> entry"
    proof
      assume "x = entry"
      with Cons.prems(2) step Inr show False
        by (simp add: check_show_entry_def get_torrent_def)
    qed
    with Cons.prems have "entry \<in> set rest" by simp
    from Cons.IH [OF this, of w'] keep Cons.prems(2) step Inr show ?thesis by simp
  qed
qed

text \<open>
  C9. For a row in state \<open>''downloading''\<close> whose hash the client does not know, the
  check of the row raises \<^verbatim>\<open>EntryNotInDeluge\<close> with the row's show id and episode and
  leaves the world as it was; it does not come back as the check of an unfinished download
  does. A watcher round over a table holding such a row ends in an exception.
\<close>

theorem unknown_handle_raises:
  assumes "entry \<in> set (show_entry_table w)"
    and "current_state entry = ''downloading''"
    and "torrents w (torrent_hash entry) = None"
  shows "check_show_entry entry w = (Inl (EntryNotInDeluge (show_id entry) (episode entry)), w)
         \<and> (\<exists>err. fst (check_show_entries w) = Inl err)"
proof
  show "check_show_entry entry w = (Inl (EntryNotInDeluge (show_id entry) (episode entry)), w)"
    using assms(3) by (simp add: check_show_entry_def get_torrent_def)
  have "entry \<in> set (filter (\<lambda>e. current_state e = ''downloading'') (show_entry_table w))"
    using assms(1,2) by simp
  from check_each_entry_unknown [OF this assms(3)]
  show "\<exists>err. fst (check_show_entries w) = Inl err"
    by (simp add: check_show_entries_def)
qed

theorem unknown_handle_raises_witness:
  "op_entry \<in> set (show_entry_table tracked_world)
   \<and> current_state op_entry = ''downloading''
   \<and> torrents tracked_world (torrent_hash op_entry) = None
   \<and> check_show_entry op_entry tracked_world = (Inl (EntryNotInDeluge 1 5), tracked_world)
   \<and> check_show_entries tracked_world = (Inl (EntryNotInDeluge 1 5), tracked_world)"
  using unknown_handle_raises [of op_entry tracked_world]
  by (simp add: check_show_entries_def check_show_entry_def get_torrent_def install_defs)

lemma get_file_path_eq:
  "get_file_path w file_location file_name =
     (if test_dir \<in> dirs w then Inr (joinpath test_dir file_name)
      else Inl (SavePathDoesNotExist ''C:/Users/Tyler/Documents/GitHub/Tsundoku/test/''))"
proof -
  have "Path (fspath test_dir) = test_dir"
    by (simp add: fspath_def Path_def splitroot_def test_dir_def)
  then show ?thesis
    by (simp add: get_file_path_def Let_def test_location_slashes Path_test_location is_dir_def)
qed

text \<open>
  C4. The torrent of \<open>op_entry\<close> is reported in \<^verbatim>\<open>/downloads\<close>, and in
  \<open>downloads_world\<close> the finished file is there: the check raises
  \<^verbatim>\<open>SavePathDoesNotExist\<close> for the directory of the literal. In \<open>test_world\<close> the path
  computed for the same report lies under that directory. The result of
  \<^verbatim>\<open>get_file_path\<close> is the same for every reported save path.
\<close>

theorem get_file_path_ignores_save_path:
  "check_show_entry op_entry downloads_world
     = (Inl (SavePathDoesNotExist ''C:/Users/Tyler/Documents/GitHub/Tsundoku/test/''),
        downloads_world)
   \<and> get_file_path test_world ''/downloads'' ''ep05.mkv''
     = Inr \<lparr>anchor = [], parts = [''C:'', ''Users'', ''Tyler'', ''Documents'', ''GitHub'',
                                  ''Tsundoku'', ''test'', ''ep05.mkv'']\<rparr>
   \<and> get_file_path w file_location file_name = get_file_path w file_location' file_name"
proof -
  have a: "check_show_entry op_entry downloads_world
     = (Inl (SavePathDoesNotExist ''C:/Users/Tyler/Documents/GitHub/Tsundoku/test/''),
        downloads_world)"
    by (simp add: check_show_entry_def get_torrent_def get_file_path_eq downloads_world_def
        abc_info_def test_dir_def install_defs)
  have b: "get_file_path test_world ''/downloads'' ''ep05.mkv''
     = Inr \<lparr>anchor = [], parts = [''C:'', ''Users'', ''Tyler'', ''Documents'', ''GitHub'',
                                  ''Tsundoku'', ''test'', ''ep05.mkv'']\<rparr>"
    by (simp add: get_file_path_eq test_world_def test_dir_def joinpath_def Path_def
        splitroot_def install_defs)
  have c: "get_file_path w file_location file_name = get_file_path w file_location' file_name"
    by (simp add: get_file_path_eq)
  from a b c show ?thesis by simp
qed

subsection \<open>Rename and relocate\<close>

lemma not_word_braces [simp]: "\<not> is_word CHR ''}''" "\<not> is_word CHR ''{''"
  by (simp_all add: is_word_def code_point_def)

lemma is_word_latin1:
  "is_word (CHR 0xE9)" "is_word (CHR 0xB2)" "\<not> is_word (CHR 0xD7)" "\<not> is_word (CHR 0xF7)"
  "\<not> is_word CHR '' ''"
  by (simp_all add: is_word_def code_point_def)

lemma re_sub_copy:
  "CHR ''{'' \<notin> set pre \<Longrightarrow> re_sub f (pre @ t) = pre @ re_sub f t"
  by (induction pre) (auto simp: re_sub.simps)

lemma re_sub_placeholder:
  assumes "w \<noteq> []" and "\<forall>c \<in> set w. is_word c"
  shows "re_sub f (CHR ''{'' # w @ CHR ''}'' # rest) = f w @ re_sub f rest"
proof -
  have t: "takeWhile is_word (w @ CHR ''}'' # rest) = w"
    using assms(2) by simp
  have d: "dropWhile is_word (w @ CHR ''}'' # rest) = CHR ''}'' # rest"
    using assms(2) by simp
  show ?thesis
    using assms(1) by (simp add: re_sub.simps(2) [of f "CHR ''{''"] t d)
qed

lemma re_sub_Nil: "re_sub f [] = []"
  by (simp add: re_sub.simps)

lemma formatting_re_unknown:
  assumes "w \<notin> {''n'', ''s'', ''e'', ''s00'', ''e00'', ''s00e00'', ''sxe''}"
  shows "formatting_re sh e w = w"
  using assms by (simp add: formatting_re_def Let_def)

lemma formatting_re_known:
  "formatting_re sh e ''n'' = search_title sh"
  "formatting_re sh e ''s'' = str_int (season sh)"
  "formatting_re sh e ''e'' = str_int (episode e + episode_offset sh)"
  "formatting_re sh e ''s00'' = zfill 2 (str_int (season sh))"
  "formatting_re sh e ''e00'' = zfill 2 (str_int (episode e + episode_offset sh))"
  "formatting_re sh e ''s00e00'' = ''S'' @ zfill 2 (str_int (season sh)) @ ''E''
      @ zfill 2 (str_int (episode e + episode_offset sh))"
  "formatting_re sh e ''sxe'' = str_int (season sh) @ ''x''
      @ zfill 2 (str_int (episode e + episode_offset sh))"
  by (simp_all add: formatting_re_def Let_def)

lemma is_word_n: "\<forall>c \<in> set ''n''. is_word c"
  by (simp add: is_word_def)

lemma is_word_zzz: "\<forall>c \<in> set ''zzz''. is_word c"
  by (simp add: is_word_def)

lemma is_word_s00e00: "\<forall>c \<in> set ''s00e00''. is_word c"
  by (simp add: is_word_def)


lemma re_sub_n_zzz:
  "re_sub (formatting_re sh e) ''{n} - {zzz}'' = search_title sh @ '' - zzz''"
proof -
  let ?f = "formatting_re sh e"
  have "re_sub ?f ''{n} - {zzz}'' = ?f ''n'' @ re_sub ?f ('' - '' @ ''{zzz}'')"
    using re_sub_placeholder [of "''n''" ?f "'' - {zzz}''"] is_word_n by simp
  also have "re_sub ?f ('' - '' @ ''{zzz}'') = '' - '' @ re_sub ?f ''{zzz}''"
    by (rule re_sub_copy) simp
  also have "re_sub ?f ''{zzz}'' = ?f ''zzz'' @ re_sub ?f []"
    using re_sub_placeholder [of "''zzz''" ?f "[]"] is_word_zzz by simp
  finally show ?thesis
    by (simp add: re_sub_Nil formatting_re_known formatting_re_unknown)
qed

lemma re_sub_default:
  "re_sub (formatting_re sh e) ''{n} - {s00e00}''
     = search_title sh @ '' - S'' @ zfill 2 (str_int (season sh)) @ ''E''
       @ zfill 2 (str_int (episode e + episode_offset sh))"
proof -
  let ?f = "formatting_re sh e"
  have "re_sub ?f ''{n} - {s00e00}'' = ?f ''n'' @ re_sub ?f ('' - '' @ ''{s00e00}'')"
    using re_sub_placeholder [of "''n''" ?f "'' - {s00e00}''"] is_word_n by simp
  also have "re_sub ?f ('' - '' @ ''{s00e00}'') = '' - '' @ re_sub ?f ''{s00e00}''"
    by (rule re_sub_copy) simp
  also have "re_sub ?f ''{s00e00}'' = ?f ''s00e00'' @ re_sub ?f []"
    using re_sub_placeholder [of "''s00e00''" ?f "[]"] is_word_s00e00 by simp
  finally show ?thesis
    by (simp add: re_sub_Nil formatting_re_known)
qed

text \<open>
  C5, as the code has it. A placeholder whose name is a run of word characters other than
  the seven known names is replaced by the name alone: the braces are dropped. Text without
  an opening brace in front of it is copied, and the substitution goes on behind the
  placeholder. For the format \<^verbatim>\<open>{n} - {zzz}\<close> the result is the title of the show followed
  by \<^verbatim>\<open> - zzz\<close>.
\<close>

theorem unknown_placeholder_loses_braces:
  assumes "w \<noteq> []" and "\<forall>c \<in> set w. is_word c"
    and "w \<notin> {''n'', ''s'', ''e'', ''s00'', ''e00'', ''s00e00'', ''sxe''}"
    and "CHR ''{'' \<notin> set pre"
  shows "re_sub (formatting_re sh e) (pre @ ''{'' @ w @ ''}'' @ rest)
           = pre @ w @ re_sub (formatting_re sh e) rest
         \<and> re_sub (formatting_re sh e) ''{n} - {zzz}'' = search_title sh @ '' - zzz''"
proof
  have "re_sub (formatting_re sh e) (pre @ ''{'' @ w @ ''}'' @ rest)
          = pre @ re_sub (formatting_re sh e) (CHR ''{'' # w @ CHR ''}'' # rest)"
    using re_sub_copy [OF assms(4)] by simp
  also have "\<dots> = pre @ formatting_re sh e w @ re_sub (formatting_re sh e) rest"
    using re_sub_placeholder [OF assms(1,2)] by simp
  finally show "re_sub (formatting_re sh e) (pre @ ''{'' @ w @ ''}'' @ rest)
           = pre @ w @ re_sub (formatting_re sh e) rest"
    using formatting_re_unknown [OF assms(3)] by simp
  show "re_sub (formatting_re sh e) ''{n} - {zzz}'' = search_title sh @ '' - zzz''"
    by (rule re_sub_n_zzz)
qed

theorem unknown_placeholder_loses_braces_witness:
  "''zzz'' \<noteq> [] \<and> is_word CHR ''z''
   \<and> ''zzz'' \<noteq> ''n'' \<and> ''zzz'' \<noteq> ''s'' \<and> ''zzz'' \<noteq> ''e'' \<and> ''zzz'' \<noteq> ''s00''
   \<and> ''zzz'' \<noteq> ''e00'' \<and> ''zzz'' \<noteq> ''s00e00'' \<and> ''zzz'' \<noteq> ''sxe''
   \<and> CHR ''{'' \<notin> set ''ep ''
   \<and> re_sub (formatting_re naruto naruto_entry) ''ep {zzz}.''
        = ''ep zzz'' @ re_sub (formatting_re naruto naruto_entry) ''.''
   \<and> re_sub (formatting_re naruto naruto_entry) ''{n} - {zzz}'' = ''Naruto - zzz''"
  using unknown_placeholder_loses_braces [of "''zzz''" "''ep ''" naruto naruto_entry "''.''"]
  by (simp add: is_word_def naruto_def)

lemma split_sep_no_sep: "CHR ''/'' \<notin> set s \<Longrightarrow> split_sep s = [s]"
  by (induction s) auto

lemma Path_single:
  assumes "nm \<noteq> []" and "CHR ''/'' \<notin> set nm" and "nm \<noteq> ''.''"
  shows "Path nm = \<lparr>anchor = [], parts = [nm]\<rparr>"
proof -
  have "hd nm \<noteq> CHR ''/''"
    using assms(1,2) by (cases nm) auto
  then have "splitroot nm = ([], nm)"
    by (simp add: splitroot_def)
  then show ?thesis
    using assms by (simp add: Path_def split_sep_no_sep)
qed

lemma with_name_ok:
  assumes "path_name p \<noteq> []" and "nm \<noteq> []" and "CHR ''/'' \<notin> set nm" and "nm \<noteq> ''.''"
  shows "with_name p nm = Inr (p\<lparr>parts := butlast (parts p) @ [nm]\<rparr>)"
proof -
  have "last nm \<noteq> CHR ''/''"
    using assms(2,3) last_in_set [of nm] by metis
  then show ?thesis
    using assms by (simp add: with_name_def Path_single)
qed

lemma handle_rename_ok:
  assumes "find (\<lambda>s. id_shows s = show_id entry) (shows_table w) = Some sh"
    and "is_file w pth"
    and "path_name pth \<noteq> []"
    and "nm = re_sub (formatting_re sh entry) (file_fmt_of sh) @ suffix pth"
    and "nm \<noteq> []" and "nm \<noteq> ''.''" and "CHR ''/'' \<notin> set nm"
    and "\<not> is_dir w (pth\<lparr>parts := butlast (parts pth) @ [nm]\<rparr>)"
  shows "handle_rename entry pth w =
           (Inr (pth\<lparr>parts := butlast (parts pth) @ [nm]\<rparr>),
            w\<lparr>files := insert (Path (fspath (pth\<lparr>parts := butlast (parts pth) @ [nm]\<rparr>)))
                           (files w - {Path (fspath pth)})\<rparr>)"
proof -
  have wn: "with_name pth nm = Inr (pth\<lparr>parts := butlast (parts pth) @ [nm]\<rparr>)"
    using with_name_ok assms(3,5,7,6) by simp
  have rn: "os_rename pth (pth\<lparr>parts := butlast (parts pth) @ [nm]\<rparr>) w =
      (Inr (), w\<lparr>files := insert (Path (fspath (pth\<lparr>parts := butlast (parts pth) @ [nm]\<rparr>)))
                           (files w - {Path (fspath pth)})\<rparr>)"
    using assms(2,8) by (simp add: os_rename_def is_file_def is_dir_def)
  show ?thesis
    using assms(1) wn rn assms(4) by (simp add: handle_rename_def Let_def)
qed

text \<open>
  C6, as the code has it. When the show of the entry is in the \<^verbatim>\<open>shows\<close> table, the
  current path is a regular file with a name, and the generated name is not empty, is not
  \<^verbatim>\<open>.\<close>, has no slash and is not borne by a directory beside the file, the rename
  succeeds. The new file lies beside the old one and is called by the substituted
  template followed by the suffix of the old path; the template is \<^verbatim>\<open>desired_format\<close>,
  or \<^verbatim>\<open>{n} - {s00e00}\<close> when that is \<^verbatim>\<open>None\<close> or empty. The placeholders stand for
  the title, for \<^verbatim>\<open>season\<close> and for \<^verbatim>\<open>episode + episode_offset\<close>.
\<close>

theorem handle_rename_names_file:
  assumes "find (\<lambda>s. id_shows s = show_id entry) (shows_table w) = Some sh"
    and "is_file w pth"
    and "path_name pth \<noteq> []"
    and "tmpl = (case desired_format sh of
                   None \<Rightarrow> ''{n} - {s00e00}''
                 | Some fmt \<Rightarrow> (if fmt = [] then ''{n} - {s00e00}'' else fmt))"
    and "nm = re_sub (formatting_re sh entry) tmpl @ suffix pth"
    and "nm \<noteq> []" and "nm \<noteq> ''.''" and "CHR ''/'' \<notin> set nm"
    and "\<not> is_dir w (pth\<lparr>parts := butlast (parts pth) @ [nm]\<rparr>)"
  shows "(\<exists>new_path w'. handle_rename entry pth w = (Inr new_path, w')
            \<and> path_name new_path = nm
            \<and> anchor new_path = anchor pth
            \<and> butlast (parts new_path) = butlast (parts pth)
            \<and> is_file w' new_path)
         \<and> formatting_re sh entry ''n'' = search_title sh
         \<and> formatting_re sh entry ''s'' = str_int (season sh)
         \<and> formatting_re sh entry ''e'' = str_int (episode entry + episode_offset sh)
         \<and> formatting_re sh entry ''s00'' = zfill 2 (str_int (season sh))
         \<and> formatting_re sh entry ''e00'' = zfill 2 (str_int (episode entry + episode_offset sh))
         \<and> formatting_re sh entry ''s00e00'' = ''S'' @ zfill 2 (str_int (season sh)) @ ''E''
              @ zfill 2 (str_int (episode entry + episode_offset sh))
         \<and> formatting_re sh entry ''sxe'' = str_int (season sh) @ ''x''
              @ zfill 2 (str_int (episode entry + episode_offset sh))"
proof -
  have tm: "tmpl = file_fmt_of sh"
    using assms(4) by (simp add: file_fmt_of_def split: option.splits)
  let ?new = "pth\<lparr>parts := butlast (parts pth) @ [nm]\<rparr>"
  let ?w' = "w\<lparr>files := insert (Path (fspath ?new)) (files w - {Path (fspath pth)})\<rparr>"
  have run: "handle_rename entry pth w = (Inr ?new, ?w')"
    using handle_rename_ok [OF assms(1,2,3) _ assms(6,7,8,9)] assms(5) tm by simp
  have "path_name ?new = nm"
    by (simp add: path_name_def)
  moreover have "is_file ?w' ?new"
    by (simp add: is_file_def)
  ultimately have "\<exists>new_path w'. handle_rename entry pth w = (Inr new_path, w')
            \<and> path_name new_path = nm
            \<and> anchor new_path = anchor pth
            \<and> butlast (parts new_path) = butlast (parts pth)
            \<and> is_file w' new_path"
    using run by simp
  then show ?thesis
    by (simp add: formatting_re_known)
qed

lemma fspath_ep05: "Path (fspath ep05_path) = ep05_path"
  by (simp add: fspath_def Path_def splitroot_def ep05_path_def test_dir_def)

lemma suffix_ep05: "suffix ep05_path = ''.mkv''"
  by (simp add: suffix_def path_name_def ep05_path_def test_dir_def)

lemma str_int_small:
  "str_int 1 = ''1''" "str_int 2 = ''2''" "str_int 5 = ''5''" "str_int 15 = ''15''"
  by (simp_all add: str_int_def str_nat.simps)

lemma is_word_sxe: "\<forall>c \<in> set ''sxe''. is_word c"
  by (simp add: is_word_def)

lemma format_examples:
  "re_sub (formatting_re one_piece op_entry) ''{s00e00}'' = ''S01E05''"
  "re_sub (formatting_re one_piece op_entry) ''{sxe}'' = ''1x05''"
proof -
  show "re_sub (formatting_re one_piece op_entry) ''{s00e00}'' = ''S01E05''"
    using re_sub_placeholder [of "''s00e00''" "formatting_re one_piece op_entry" "[]"]
      is_word_s00e00
    by (simp add: re_sub_Nil formatting_re_known one_piece_def op_entry_def str_int_small
        zfill_def)
  show "re_sub (formatting_re one_piece op_entry) ''{sxe}'' = ''1x05''"
    using re_sub_placeholder [of "''sxe''" "formatting_re one_piece op_entry" "[]"] is_word_sxe
    by (simp add: re_sub_Nil formatting_re_known one_piece_def op_entry_def str_int_small
        zfill_def)
qed

lemma handle_rename_op:
  "handle_rename op_entry ep05_path test_world =
     (Inr (test_dir\<lparr>parts := parts test_dir @ [''One Piece - S01E05.mkv'']\<rparr>),
      test_world\<lparr>files := {test_dir\<lparr>parts := parts test_dir @ [''One Piece - S01E05.mkv'']\<rparr>}\<rparr>)"
proof -
  have f: "find (\<lambda>s. id_shows s = show_id op_entry) (shows_table test_world) = Some one_piece"
    by (simp add: test_world_def install_defs)
  have nm: "''One Piece - S01E05.mkv''
      = re_sub (formatting_re one_piece op_entry) (file_fmt_of one_piece) @ suffix ep05_path"
    by (simp add: file_fmt_of_def one_piece_def [THEN arg_cong, of desired_format] re_sub_default
        suffix_ep05 one_piece_def op_entry_def str_int_small zfill_def)
  have isf: "is_file test_world ep05_path"
    by (simp add: is_file_def fspath_ep05) (simp add: test_world_def ep05_path_def)
  have pn: "path_name ep05_path \<noteq> []"
    by (simp add: path_name_def ep05_path_def test_dir_def)
  have new: "ep05_path\<lparr>parts := butlast (parts ep05_path) @ [''One Piece - S01E05.mkv'']\<rparr>
      = test_dir\<lparr>parts := parts test_dir @ [''One Piece - S01E05.mkv'']\<rparr>"
    by (simp add: ep05_path_def test_dir_def)
  have fsnew: "Path (fspath (test_dir\<lparr>parts := parts test_dir @ [''One Piece - S01E05.mkv'']\<rparr>))
      = test_dir\<lparr>parts := parts test_dir @ [''One Piece - S01E05.mkv'']\<rparr>"
    by (simp add: fspath_def Path_def splitroot_def test_dir_def)
  have nd: "\<not> is_dir test_world
      (ep05_path\<lparr>parts := butlast (parts ep05_path) @ [''One Piece - S01E05.mkv'']\<rparr>)"
    unfolding new by (simp add: is_dir_def fsnew) (simp add: test_world_def test_dir_def)
  have fl: "files test_world = {ep05_path}"
    by (simp add: test_world_def ep05_path_def)
  show ?thesis
    using handle_rename_ok [OF f isf pn nm _ _ _ nd]
    by (simp add: new fsnew fspath_ep05 fl)
qed

lemma handle_rename_naruto:
  "handle_rename naruto_entry ep05_path test_world =
     (Inr (test_dir\<lparr>parts := parts test_dir @ [''Naruto - zzz.mkv'']\<rparr>),
      test_world\<lparr>files := {test_dir\<lparr>parts := parts test_dir @ [''Naruto - zzz.mkv'']\<rparr>}\<rparr>)"
proof -
  have f: "find (\<lambda>s. id_shows s = show_id naruto_entry) (shows_table test_world) = Some naruto"
    by (simp add: test_world_def naruto_entry_def install_defs)
  have nm: "''Naruto - zzz.mkv''
      = re_sub (formatting_re naruto naruto_entry) (file_fmt_of naruto) @ suffix ep05_path"
    by (simp add: file_fmt_of_def naruto_def [THEN arg_cong, of desired_format] re_sub_n_zzz
        suffix_ep05 naruto_def)
  have isf: "is_file test_world ep05_path"
    by (simp add: is_file_def fspath_ep05) (simp add: test_world_def ep05_path_def)
  have pn: "path_name ep05_path \<noteq> []"
    by (simp add: path_name_def ep05_path_def test_dir_def)
  have new: "ep05_path\<lparr>parts := butlast (parts ep05_path) @ [''Naruto - zzz.mkv'']\<rparr>
      = test_dir\<lparr>parts := parts test_dir @ [''Naruto - zzz.mkv'']\<rparr>"
    by (simp add: ep05_path_def test_dir_def)
  have fsnew: "Path (fspath (test_dir\<lparr>parts := parts test_dir @ [''Naruto - zzz.mkv'']\<rparr>))
      = test_dir\<lparr>parts := parts test_dir @ [''Naruto - zzz.mkv'']\<rparr>"
    by (simp add: fspath_def Path_def splitroot_def test_dir_def)
  have nd: "\<not> is_dir test_world
      (ep05_path\<lparr>parts := butlast (parts ep05_path) @ [''Naruto - zzz.mkv'']\<rparr>)"
    unfolding new by (simp add: is_dir_def fsnew) (simp add: test_world_def test_dir_def)
  have fl: "files test_world = {ep05_path}"
    by (simp add: test_world_def ep05_path_def)
  show ?thesis
    using handle_rename_ok [OF f isf pn nm _ _ _ nd]
    by (simp add: new fsnew fspath_ep05 fl)
qed

text \<open>
  C5, as stated, fails: \<open>naruto\<close> has the format \<^verbatim>\<open>{n} - {zzz}\<close>, and the file renamed
  for \<open>naruto_entry\<close> is called \<^verbatim>\<open>Naruto - zzz.mkv\<close>, a name without any brace.
\<close>

theorem unknown_placeholder_counterexample:
  "desired_format naruto = Some ''{n} - {zzz}''
   \<and> fst (handle_rename naruto_entry ep05_path test_world)
       = Inr (test_dir\<lparr>parts := parts test_dir @ [''Naruto - zzz.mkv'']\<rparr>)
   \<and> CHR ''{'' \<notin> set ''Naruto - zzz.mkv''"
  by (simp add: handle_rename_naruto naruto_def)

lemma test_world_facts:
  "find (\<lambda>s. id_shows s = show_id op_entry) (shows_table test_world) = Some one_piece"
  "is_file test_world ep05_path"
  "path_name ep05_path \<noteq> []"
  "torrents test_world (torrent_hash op_entry) = Some abc_info"
  "get_file_path test_world (save_path abc_info) (name abc_info) = Inr ep05_path"
  "ep05_path\<lparr>parts := butlast (parts ep05_path) @ [''One Piece - S01E05.mkv'']\<rparr> = op_renamed"
  "\<not> is_dir test_world op_renamed"
  "re_sub (formatting_re one_piece op_entry) (file_fmt_of one_piece) @ suffix ep05_path
      = ''One Piece - S01E05.mkv''"
proof -
  show "find (\<lambda>s. id_shows s = show_id op_entry) (shows_table test_world) = Some one_piece"
    by (simp add: test_world_def install_defs)
  show "is_file test_world ep05_path"
    by (simp add: is_file_def fspath_ep05) (simp add: test_world_def ep05_path_def)
  show "path_name ep05_path \<noteq> []"
    by (simp add: path_name_def ep05_path_def test_dir_def)
  show "torrents test_world (torrent_hash op_entry) = Some abc_info"
    by (simp add: test_world_def op_entry_def)
  show "get_file_path test_world (save_path abc_info) (name abc_info) = Inr ep05_path"
    by (simp add: get_file_path_eq test_world_def abc_info_def joinpath_def Path_def splitroot_def
        ep05_path_def test_dir_def)
  show "ep05_path\<lparr>parts := butlast (parts ep05_path) @ [''One Piece - S01E05.mkv'']\<rparr> = op_renamed"
    by (simp add: ep05_path_def test_dir_def op_renamed_def)
  have "Path (fspath op_renamed) = op_renamed"
    by (simp add: fspath_def Path_def splitroot_def test_dir_def op_renamed_def)
  then show "\<not> is_dir test_world op_renamed"
    by (simp add: is_dir_def) (simp add: test_world_def test_dir_def op_renamed_def)
  show "re_sub (formatting_re one_piece op_entry) (file_fmt_of one_piece) @ suffix ep05_path
      = ''One Piece - S01E05.mkv''"
    by (simp add: file_fmt_of_def one_piece_def [THEN arg_cong, of desired_format] re_sub_default
        suffix_ep05 one_piece_def op_entry_def str_int_small zfill_def)
qed

lemma check_show_entry_op:
  "check_show_entry op_entry test_world = (Inr (), test_world\<lparr>files := {op_renamed}\<rparr>)"
  using handle_rename_op
  by (simp add: check_show_entry_def get_torrent_def test_world_facts Let_def op_renamed_def)

lemma check_show_entries_op:
  "check_show_entries test_world = (Inr (), test_world\<lparr>files := {op_renamed}\<rparr>)"
proof -
  have "filter (\<lambda>e. current_state e = ''downloading'') (show_entry_table test_world) = [op_entry]"
    by (simp add: test_world_def install_defs)
  then show ?thesis
    by (simp add: check_show_entries_def check_show_entry_op)
qed

text \<open>
  C2, as stated, fails: in \<open>test_world\<close> the row \<open>op_entry\<close> is in state
  \<open>''downloading''\<close> and its file is finished. One watcher round renames the file, and the
  state of the row is \<open>''downloading''\<close> afterwards.
\<close>

theorem watcher_state_counterexample:
  "current_state op_entry = ''downloading''
   \<and> show_entry_table test_world = [op_entry]
   \<and> is_file test_world ep05_path
   \<and> check_show_entries test_world = (Inr (), test_world\<lparr>files := {op_renamed}\<rparr>)
   \<and> map current_state (show_entry_table (snd (check_show_entries test_world)))
       = [''downloading'']"
  by (simp add: check_show_entries_op test_world_facts)
     (simp add: test_world_def install_defs)

text \<open>
  C2, as the code has it. For a row whose torrent the client knows, whose file is a regular
  file at the path the watcher computes, and for which the rename can succeed as in C6, the
  check of the row invokes the rename: it returns normally, the file is at its new name,
  and the \<^verbatim>\<open>show_entry\<close> table is as before. No watcher round and no number of rounds
  changes the table, so the row stays in state \<open>''downloading''\<close> and is checked again.
\<close>

theorem watcher_renames_and_keeps_state:
  assumes "torrents w (torrent_hash entry) = Some info"
    and "get_file_path w (save_path info) (name info) = Inr pth"
    and "is_file w pth"
    and "find (\<lambda>s. id_shows s = show_id entry) (shows_table w) = Some sh"
    and "path_name pth \<noteq> []"
    and "nm = re_sub (formatting_re sh entry) (file_fmt_of sh) @ suffix pth"
    and "nm \<noteq> []" and "nm \<noteq> ''.''" and "CHR ''/'' \<notin> set nm"
    and "\<not> is_dir w (pth\<lparr>parts := butlast (parts pth) @ [nm]\<rparr>)"
  shows "(\<exists>w'. check_show_entry entry w = (Inr (), w')
            \<and> is_file w' (pth\<lparr>parts := butlast (parts pth) @ [nm]\<rparr>)
            \<and> show_entry_table w' = show_entry_table w)
         \<and> show_entry_table (snd (check_show_entries v)) = show_entry_table v
         \<and> show_entry_table (snd (downloader_start n v)) = show_entry_table v"
proof -
  let ?new = "pth\<lparr>parts := butlast (parts pth) @ [nm]\<rparr>"
  let ?w' = "w\<lparr>files := insert (Path (fspath ?new)) (files w - {Path (fspath pth)})\<rparr>"
  have "handle_rename entry pth w = (Inr ?new, ?w')"
    by (rule handle_rename_ok [OF assms(4,3,5,6,7,8,9,10)])
  then have "check_show_entry entry w = (Inr (), ?w')"
    using assms(1,2,3) by (simp add: check_show_entry_def get_torrent_def Let_def)
  moreover have "is_file ?w' ?new"
    by (simp add: is_file_def)
  ultimately have "\<exists>w'. check_show_entry entry w = (Inr (), w')
            \<and> is_file w' ?new \<and> show_entry_table w' = show_entry_table w"
    by simp
  then show ?thesis
    by (simp add: check_show_entries_keeps downloader_start_keeps)
qed

theorem watcher_renames_and_keeps_state_witness:
  "torrents test_world (torrent_hash op_entry) = Some abc_info
   \<and> get_file_path test_world (save_path abc_info) (name abc_info) = Inr ep05_path
   \<and> is_file test_world ep05_path
   \<and> find (\<lambda>s. id_shows s = show_id op_entry) (shows_table test_world) = Some one_piece
   \<and> path_name ep05_path \<noteq> []
   \<and> re_sub (formatting_re one_piece op_entry) (file_fmt_of one_piece) @ suffix ep05_path
       = ''One Piece - S01E05.mkv''
   \<and> CHR ''/'' \<notin> set ''One Piece - S01E05.mkv''
   \<and> \<not> is_dir test_world op_renamed
   \<and> check_show_entry op_entry test_world = (Inr (), test_world\<lparr>files := {op_renamed}\<rparr>)
   \<and> show_entry_table (snd (downloader_start 2 test_world)) = show_entry_table test_world"
proof -
  note f = test_world_facts
  have nd: "\<not> is_dir test_world
      (ep05_path\<lparr>parts := butlast (parts ep05_path) @ [''One Piece - S01E05.mkv'']\<rparr>)"
    using f(6,7) by simp
  have "show_entry_table (snd (downloader_start 2 test_world)) = show_entry_table test_world"
    using watcher_renames_and_keeps_state
      [OF f(4,5,2,1,3) f(8) [symmetric] _ _ _ nd, of test_world 2]
    by simp
  then show ?thesis
    by (simp add: f check_show_entry_op)
qed

lemma fate_name:
  "re_sub (formatting_re fate_zero fate_entry) ''{n} - {s00e00}'' @ suffix ep05_path
     = ''Fate/Zero - S01E01.mkv''"
  by (simp add: re_sub_default suffix_ep05 fate_zero_def fate_entry_def str_int_small zfill_def)

lemma with_name_fate: "with_name ep05_path ''Fate/Zero - S01E01.mkv'' = Inl ValueError"
  by (simp add: with_name_def path_name_def ep05_path_def test_dir_def Path_def splitroot_def)

text \<open>
  C6, as stated, fails: \<open>fate_zero\<close> is called \<^verbatim>\<open>Fate/Zero\<close>, the name generated for
  \<open>fate_entry\<close> is \<^verbatim>\<open>Fate/Zero - S01E01.mkv\<close>, and \<^verbatim>\<open>with_name\<close> refuses it: the
  rename raises \<^verbatim>\<open>ValueError\<close> and the world is as before. In \<open>dir_world\<close> the name
  generated for \<open>op_entry\<close> is the name of a directory, and \<^verbatim>\<open>os.rename\<close> raises.
\<close>

theorem handle_rename_counterexample:
  "find (\<lambda>s. id_shows s = show_id fate_entry) (shows_table fate_world) = Some fate_zero
   \<and> desired_format fate_zero = None
   \<and> is_file fate_world ep05_path
   \<and> re_sub (formatting_re fate_zero fate_entry) ''{n} - {s00e00}'' @ suffix ep05_path
       = ''Fate/Zero - S01E01.mkv''
   \<and> handle_rename fate_entry ep05_path fate_world = (Inl ValueError, fate_world)
   \<and> is_file dir_world ep05_path
   \<and> is_dir dir_world op_renamed
   \<and> handle_rename op_entry ep05_path dir_world = (Inl IsADirectoryError, dir_world)"
proof -
  have f: "find (\<lambda>s. id_shows s = show_id fate_entry) (shows_table fate_world) = Some fate_zero"
    by (simp add: fate_world_def fate_entry_def fate_zero_def test_world_def install_defs)
  have d: "desired_format fate_zero = None"
    by (simp add: fate_zero_def)
  then have ff: "file_fmt_of fate_zero = ''{n} - {s00e00}''"
    by (simp add: file_fmt_of_def)
  have isf: "is_file fate_world ep05_path"
    by (simp add: is_file_def fspath_ep05) (simp add: fate_world_def test_world_def ep05_path_def)
  have run: "handle_rename fate_entry ep05_path fate_world = (Inl ValueError, fate_world)"
    using f ff fate_name with_name_fate by (simp add: handle_rename_def Let_def)
  have fr: "Path (fspath op_renamed) = op_renamed"
    by (simp add: fspath_def Path_def splitroot_def test_dir_def op_renamed_def)
  have isf2: "is_file dir_world ep05_path"
    by (simp add: is_file_def fspath_ep05) (simp add: dir_world_def test_world_def ep05_path_def)
  have isd: "is_dir dir_world op_renamed"
    by (simp add: is_dir_def fr) (simp add: dir_world_def)
  have f2: "find (\<lambda>s. id_shows s = show_id op_entry) (shows_table dir_world) = Some one_piece"
    by (simp add: dir_world_def test_world_def install_defs)
  have wn: "with_name ep05_path ''One Piece - S01E05.mkv'' = Inr op_renamed"
    by (simp add: with_name_def path_name_def ep05_path_def test_dir_def Path_def splitroot_def
        op_renamed_def)
  have rn: "os_rename ep05_path op_renamed dir_world = (Inl IsADirectoryError, dir_world)"
    using isf2 isd by (simp add: os_rename_def is_file_def is_dir_def)
  have run2: "handle_rename op_entry ep05_path dir_world = (Inl IsADirectoryError, dir_world)"
    using f2 test_world_facts(8) wn rn by (simp add: handle_rename_def Let_def)
  show ?thesis
    using f d isf fate_name run isf2 isd run2 by simp
qed

theorem handle_rename_names_file_witness:
  "find (\<lambda>s. id_shows s = show_id op_entry) (shows_table test_world) = Some one_piece
   \<and> is_file test_world ep05_path
   \<and> path_name ep05_path \<noteq> []
   \<and> desired_format one_piece = None
   \<and> re_sub (formatting_re one_piece op_entry) ''{n} - {s00e00}'' @ suffix ep05_path
       = ''One Piece - S01E05.mkv''
   \<and> CHR ''/'' \<notin> set ''One Piece - S01E05.mkv''
   \<and> \<not> is_dir test_world op_renamed
   \<and> handle_rename op_entry ep05_path test_world
       = (Inr op_renamed, test_world\<lparr>files := {op_renamed}\<rparr>)
   \<and> path_name op_renamed = ''One Piece - S01E05.mkv''
   \<and> suffix ep05_path = ''.mkv''
   \<and> formatting_re one_piece op_entry ''s00e00'' = ''S01E05''"
proof -
  note f = test_world_facts
  have df: "desired_format one_piece = None"
    by (simp add: one_piece_def)
  then have ff: "file_fmt_of one_piece = ''{n} - {s00e00}''"
    by (simp add: file_fmt_of_def)
  have nd: "\<not> is_dir test_world
      (ep05_path\<lparr>parts := butlast (parts ep05_path) @ [''One Piece - S01E05.mkv'']\<rparr>)"
    using f(6,7) by simp
  have tm: "''{n} - {s00e00}'' = (case desired_format one_piece of
                   None \<Rightarrow> ''{n} - {s00e00}''
                 | Some fmt \<Rightarrow> (if fmt = [] then ''{n} - {s00e00}'' else fmt))"
    using df by simp
  have nm: "''One Piece - S01E05.mkv''
      = re_sub (formatting_re one_piece op_entry) ''{n} - {s00e00}'' @ suffix ep05_path"
    using f(8) ff by simp
  have "formatting_re one_piece op_entry ''s00e00''
      = ''S'' @ zfill 2 (str_int (season one_piece)) @ ''E''
          @ zfill 2 (str_int (episode op_entry + episode_offset one_piece))"
    using handle_rename_names_file [OF f(1,2,3) tm nm _ _ _ nd] by simp
  then have s: "formatting_re one_piece op_entry ''s00e00'' = ''S01E05''"
    by (simp add: one_piece_def op_entry_def str_int_small zfill_def)
  have pn: "path_name op_renamed = ''One Piece - S01E05.mkv''"
    by (simp add: path_name_def op_renamed_def)
  have hr: "handle_rename op_entry ep05_path test_world
       = (Inr op_renamed, test_world\<lparr>files := {op_renamed}\<rparr>)"
    using handle_rename_op by (simp add: op_renamed_def)
  show ?thesis
    using f(8) by (simp add: f(1-7) df ff s pn hr suffix_ep05)
qed

subsection \<open>Poll cycle\<close>

lemma poll_parsers_append:
  "poll_parsers sc (qs @ rs) w =
     (case poll_parsers sc qs w of
        (Inl e, w') \<Rightarrow> (Inl e, w')
      | (Inr u, w') \<Rightarrow> poll_parsers sc rs w')"
proof (induction qs arbitrary: w)
  case Nil
  show ?case by (simp split: prod.splits sum.splits)
next
  case (Cons q qs)
  show ?case
    by (simp add: Cons.IH split: prod.splits sum.splits)
qed

text \<open>
  C8, as the code has it. When the sources before \<open>p\<close> have been processed and the
  processing of \<open>p\<close> raises, the pass over the sources ends with that exception in the
  world \<open>p\<close> left: the sources after \<open>p\<close> are not processed, whatever they are, and
  the exception leaves the loop of \<^verbatim>\<open>Poller.start\<close>.
\<close>

theorem poll_cycle_stops_at_fault:
  assumes "poll_parsers sc before w = (Inr (), w1)"
    and "poll_parsers sc [p] w1 = (Inl e, w2)"
  shows "poll_parsers sc (before @ p # rest) w = (Inl e, w2)
         \<and> poller_start sc (before @ p # rest) (Suc n) w = (Some e, w2)"
proof -
  have "poll_parsers sc ([p] @ rest) w1 = (Inl e, w2)"
    using assms(2) by (simp only: poll_parsers_append [of sc "[p]" rest w1]) simp
  then have "poll_parsers sc (before @ p # rest) w = (Inl e, w2)"
    using assms(1) by (simp add: poll_parsers_append [of sc before "p # rest" w])
  then show ?thesis by simp
qed

lemmas poll_defs = get_feed_from_parser_def check_feed_def check_item_def
  check_item_for_match_def extractOne_def extractWithoutOrder_def getitem_def str_int_def
  str_nat.simps malformed_world_def unreachable_world_def parser_a_def untitled_item_def

lemma stdout_malformed: "malformed_world\<lparr>stdout := []\<rparr> = malformed_world"
  by (simp add: malformed_world_def install_defs)

lemma poll_plain_parser:
  "poll_parsers exact_scorer [plain_parser] (malformed_world\<lparr>stdout := out\<rparr>)
     = (Inr (), malformed_world\<lparr>stdout := out @ [''One Piece 5'']\<rparr>)"
  by (simp add: poll_defs install_defs)

lemma poll_parser_a:
  "poll_parsers exact_scorer (parser_a # rest) (malformed_world\<lparr>stdout := out\<rparr>)
     = (Inl (KeyError ''title''), malformed_world\<lparr>stdout := out\<rparr>)"
  by (simp add: poll_defs install_defs)

lemma poll_unreachable:
  "poll_parsers exact_scorer (parser_a # rest) unreachable_world
     = (Inl (ExternalError ''feed-a''), unreachable_world)"
  by (simp add: poll_defs install_defs)

text \<open>
  C8, as stated, fails: with the sources \<open>parser_a\<close> and \<open>plain_parser\<close>, the item
  without a title in the first feed raises \<^verbatim>\<open>KeyError\<close>, and the item of the second
  feed, which \<open>plain_parser\<close> alone would print, is never looked at; the exception ends
  \<^verbatim>\<open>Poller.start\<close>. The same happens when the fetch of the first feed raises.
\<close>

theorem poll_cycle_counterexample:
  "poll_parsers exact_scorer [parser_a, plain_parser] malformed_world
     = (Inl (KeyError ''title''), malformed_world)
   \<and> poll_parsers exact_scorer [plain_parser] malformed_world
     = (Inr (), malformed_world\<lparr>stdout := [''One Piece 5'']\<rparr>)
   \<and> poller_start exact_scorer [parser_a, plain_parser] 2 malformed_world
     = (Some (KeyError ''title''), malformed_world)
   \<and> poll_parsers exact_scorer [parser_a, plain_parser] unreachable_world
     = (Inl (ExternalError ''feed-a''), unreachable_world)"
  using poll_parser_a [of "[plain_parser]" "[]"] poll_plain_parser [of "[]"]
    poll_unreachable [of "[plain_parser]"]
  by (simp add: stdout_malformed numeral_2_eq_2)

theorem poll_cycle_stops_at_fault_witness:
  "poll_parsers exact_scorer [plain_parser] malformed_world
     = (Inr (), malformed_world\<lparr>stdout := [''One Piece 5'']\<rparr>)
   \<and> poll_parsers exact_scorer [parser_a] (malformed_world\<lparr>stdout := [''One Piece 5'']\<rparr>)
     = (Inl (KeyError ''title''), malformed_world\<lparr>stdout := [''One Piece 5'']\<rparr>)
   \<and> poll_parsers exact_scorer [plain_parser, parser_a, plain_parser] malformed_world
     = (Inl (KeyError ''title''), malformed_world\<lparr>stdout := [''One Piece 5'']\<rparr>)
   \<and> poller_start exact_scorer [plain_parser, parser_a, plain_parser] (Suc 0) malformed_world
     = (Some (KeyError ''title''), malformed_world\<lparr>stdout := [''One Piece 5'']\<rparr>)"
proof -
  have a: "poll_parsers exact_scorer [plain_parser] malformed_world
     = (Inr (), malformed_world\<lparr>stdout := [''One Piece 5'']\<rparr>)"
    using poll_plain_parser [of "[]"] by (simp add: stdout_malformed)
  have b: "poll_parsers exact_scorer [parser_a] (malformed_world\<lparr>stdout := [''One Piece 5'']\<rparr>)
     = (Inl (KeyError ''title''), malformed_world\<lparr>stdout := [''One Piece 5'']\<rparr>)"
    by (rule poll_parser_a)
  from poll_cycle_stops_at_fault [OF a b, of "[plain_parser]" 0] a b
  show ?thesis by simp
qed

end
